theory Spec2Isabelle
  imports Complex_Main
begin

section \<open>The settings panel of \<open>src/components/OllamaSettings.tsx\<close>\<close>

subsection \<open>Values\<close>

text \<open>
  A JavaScript \<open>number\<close>. The panel never computes with numbers: it stores them in
  the settings record and hands them to the owner. A finite double is therefore
  represented by the rational it denotes (a decimal literal such as \<open>0.7\<close> by
  \<open>7/10\<close>), and the three non-finite doubles are kept apart.
\<close>

datatype number = Num rat | PosInfinity | NegInfinity | NaN

text \<open>
  A run-time value of type \<open>any\<close>: what \<open>response.json()\<close> yields, what
  \<open>m.name\<close> reads from it, and so what ends up in \<open>settings.model\<close>.
  An object literal is the list of its members in source order; a later member
  with the same key overrides an earlier one.
\<close>

datatype any =
    JUndefined
  | JNull
  | JBool bool
  | JNum number
  | JStr string
  | JArr "any list"
  | JObj "(string \<times> any) list"

text \<open>Truthiness, as used by \<open>!currentSettings.model\<close> and \<open>settings.model && ...\<close>.\<close>

fun truthy :: "any \<Rightarrow> bool" where
  "truthy JUndefined = False"
| "truthy JNull = False"
| "truthy (JBool b) = b"
| "truthy (JNum n) = (n \<noteq> Num 0 \<and> n \<noteq> NaN)"
| "truthy (JStr s) = (s \<noteq> [])"
| "truthy (JArr xs) = True"
| "truthy (JObj kvs) = True"


subsection \<open>The settings record and the props\<close>

text \<open>
  \<open>interface OllamaSettings\<close> (lines 25-32). Every field has its declared type,
  except \<open>model\<close>: names read from the fetched payload are never checked to be
  strings (\<open>(m: any) => m.name\<close>), so the field holds an \<open>any\<close>.
\<close>

record OllamaSettings =
  model :: any
  temperature :: number
  topP :: number
  useFixedSeed :: bool
  seed :: number
  numCtx :: number

text \<open>
  Objects and functions handed in by the owner are compared by identity in
  dependency arrays, so each carries a reference. \<open>OllamaSettingsProps\<close>
  (lines 34-40) without the two presentation-only members \<open>hideTitle\<close> and
  \<open>onHelp\<close>; \<open>autoApply\<close> defaults to false and \<open>initialSettings\<close> is optional.
\<close>

type_synonym ref = nat

record Props =
  onSettingsSave :: ref
  autoApply :: bool
  initialSettings :: "(ref \<times> OllamaSettings) option"

text \<open>A call of the owner's callback: which function was called, and with which record.\<close>

type_synonym push = "ref \<times> OllamaSettings"

text \<open>\<open>initialSettings?.model\<close>\<close>

definition external_model :: "Props \<Rightarrow> any" where
  "external_model p = (case initialSettings p of None \<Rightarrow> JUndefined | Some (r, s) \<Rightarrow> model s)"

text \<open>The identity of \<open>initialSettings\<close> (\<open>None\<close> for \<open>undefined\<close>).\<close>

definition external_ref :: "Props \<Rightarrow> ref option" where
  "external_ref p = map_option fst (initialSettings p)"

subsection \<open>The component\<close>

text \<open>
  The four \<open>useState\<close> cells (lines 45-55), the props of the last render, the
  dependency arrays the two conditional effects were last run with (\<open>None\<close> before
  the first commit), the callbacks waiting in \<open>requestAnimationFrame\<close>, and the
  calls the owner has received so far.
\<close>

record Component =
  props :: Props
  settings :: OllamaSettings
  loading :: bool
  error :: "string option"
  availableModels :: "any list"
  bootstrapDeps :: "(bool \<times> any \<times> ref \<times> any) option"
  syncDeps :: "ref option option"
  frames :: "push list"
  pushes :: "push list"

text \<open>The literal of lines 45-52.\<close>

definition defaultSettings :: OllamaSettings where
  "defaultSettings =
     \<lparr> model = JStr '''', temperature = Num (7/10), topP = Num (9/10),
       useFixedSeed = False, seed = Num 42, numCtx = Num 2048 \<rparr>"

text \<open>
  The dependency array of the effect of lines 94-99:
  \<open>[autoApply, settings.model, onSettingsSave, initialSettings?.model]\<close>.
\<close>

definition bootstrap_now :: "Props \<Rightarrow> OllamaSettings \<Rightarrow> bool \<times> any \<times> ref \<times> any" where
  "bootstrap_now p s = (autoApply p, model s, onSettingsSave p, external_model p)"

text \<open>
  The effects of one commit, in source order, all reading the \<open>settings\<close> and props
  of the render they belong to:
  \<^item> lines 94-99: when a dependency changed, push the working record if
    \<open>autoApply && settings.model && !initialSettings?.model\<close>;
  \<^item> lines 102-106: when \<open>initialSettings\<close> changed identity and is defined,
    \<open>setSettings(initialSettings)\<close>; the new state is visible from the next render on.
  The effect of lines 89-91 (start the fetch) has a constant dependency and runs
  at mount only; the fetch in flight is the state \<open>loading = True\<close>.
\<close>

definition effects :: "Component \<Rightarrow> Component" where
  "effects c =
     (let p = props c; s = settings c;
          d2 = bootstrap_now p s;
          d3 = external_ref p;
          out = (if bootstrapDeps c \<noteq> Some d2 \<and> autoApply p \<and> truthy (model s)
                    \<and> \<not> truthy (external_model p)
                 then [(onSettingsSave p, s)] else []);
          s' = (if syncDeps c \<noteq> Some d3
                then (case initialSettings p of Some (r, e) \<Rightarrow> e | None \<Rightarrow> s)
                else s)
      in c\<lparr> settings := s', bootstrapDeps := Some d2, syncDeps := Some d3,
             pushes := pushes c @ out \<rparr>)"

text \<open>
  A render is followed by its effects; a state update made by an effect causes one
  more render with its effects. After that nothing is left to run (lemma
  \<open>effects_settle\<close> below).
\<close>

definition settle :: "Component \<Rightarrow> Component" where
  "settle c = effects (effects c)"

text \<open>Mounting: the \<open>useState\<close> initialisers, then the first commit.\<close>

definition mount :: "Props \<Rightarrow> Component" where
  "mount p =
     settle \<lparr> props = p,
              settings = (case initialSettings p of Some (r, s) \<Rightarrow> s | None \<Rightarrow> defaultSettings),
              loading = True, error = None, availableModels = [],
              bootstrapDeps = None, syncDeps = None, frames = [], pushes = [] \<rparr>"

subsection \<open>Fetching the model list\<close>

text \<open>What the \<open>try\<close> block of \<open>fetchModels\<close> (lines 59-78) can be left with.\<close>

datatype exn = Error string | TypeError | SyntaxError | Rejected

text \<open>
  Reading the member \<open>name\<close> of a value, for the two names the source reads
  (\<open>models\<close>, \<open>name\<close>), which no built-in prototype defines: reading from
  \<open>null\<close> or \<open>undefined\<close> throws; an object yields its member, or
  \<open>undefined\<close> when it has none; every other value yields \<open>undefined\<close>.
\<close>

fun get_member :: "string \<Rightarrow> any \<Rightarrow> exn + any" where
  "get_member name JUndefined = Inl TypeError"
| "get_member name JNull = Inl TypeError"
| "get_member name (JObj kvs) =
     Inr (case map_of (rev kvs) name of None \<Rightarrow> JUndefined | Some v \<Rightarrow> v)"
| "get_member name v = Inr JUndefined"

text \<open>\<open>.map((m: any) => m.name)\<close> over the elements of an array; the first throw ends it.\<close>

fun map_names :: "any list \<Rightarrow> exn + any list" where
  "map_names [] = Inr []"
| "map_names (m # ms) =
     (case get_member ''name'' m of
        Inl e \<Rightarrow> Inl e
      | Inr n \<Rightarrow> (case map_names ms of Inl e \<Rightarrow> Inl e | Inr ns \<Rightarrow> Inr (n # ns)))"

text \<open>
  Line 68, \<open>data.models?.map((m: any) => m.name) || []\<close>: \<open>data.models\<close> is read
  unguarded; \<open>?.\<close> stops at \<open>undefined\<close> and \<open>null\<close>, and \<open>|| []\<close> turns that
  into the empty list; an array is mapped; any other value has no callable \<open>map\<close>.
\<close>

definition extract_models :: "any \<Rightarrow> exn + any list" where
  "extract_models data =
     (case get_member ''models'' data of
        Inl e \<Rightarrow> Inl e
      | Inr JUndefined \<Rightarrow> Inr []
      | Inr JNull \<Rightarrow> Inr []
      | Inr (JArr ms) \<Rightarrow> map_names ms
      | Inr _ \<Rightarrow> Inl TypeError)"

text \<open>
  The two collaborators of \<open>../config/api\<close> are not part of the component; what they
  deliver is an input. \<open>checkOllamaConnection()\<close> resolves to
  \<open>{ connected, error }\<close> or rejects (\<open>None\<close>); \<open>fetchWithCORS('/api/tags')\<close>
  rejects, or resolves to a response whose \<open>json()\<close> rejects or yields a value.
\<close>

record connection =
  connected :: bool
  connectionError :: "string option"

datatype tags_response = FetchRejected | JsonRejected | JsonBody any

text \<open>Lines 60-68: the model names, or the exception that reaches \<open>catch\<close>.\<close>

definition fetched_models :: "connection option \<Rightarrow> tags_response \<Rightarrow> exn + any list" where
  "fetched_models probe response =
     (case probe of
        None \<Rightarrow> Inl Rejected
      | Some conn \<Rightarrow>
          if \<not> connected conn
          then Inl (Error (case connectionError conn of
                             None \<Rightarrow> ''Failed to connect to Ollama''
                           | Some msg \<Rightarrow> if msg = [] then ''Failed to connect to Ollama'' else msg))
          else (case response of
                  FetchRejected \<Rightarrow> Inl Rejected
                | JsonRejected \<Rightarrow> Inl SyntaxError
                | JsonBody data \<Rightarrow> extract_models data))"

text \<open>The updater passed to \<open>setSettings\<close> in lines 73-78.\<close>

definition select_first :: "any list \<Rightarrow> OllamaSettings \<Rightarrow> OllamaSettings" where
  "select_first models currentSettings =
     (if length models > 0 \<and> \<not> truthy (model currentSettings)
      then currentSettings\<lparr> model := models ! 0 \<rparr>
      else currentSettings)"

text \<open>
  The state updates of \<open>fetchModels\<close> once its awaits are through (lines 69-85);
  \<open>startCommand\<close> is what \<open>getOllamaStartCommand()\<close> returns.
\<close>

definition fetchModels :: "string \<Rightarrow> connection option \<Rightarrow> tags_response \<Rightarrow> Component \<Rightarrow> Component" where
  "fetchModels startCommand probe response c =
     (case fetched_models probe response of
        Inr models \<Rightarrow>
          c\<lparr> availableModels := models, error := None,
             settings := select_first models (settings c), loading := False \<rparr>
      | Inl err \<Rightarrow>
          c\<lparr> error := Some (''Cannot connect to Ollama. '' @ startCommand), loading := False \<rparr>)"

subsection \<open>Editing\<close>

text \<open>
  The argument pairs \<open>(field, value)\<close> of the six calls of \<open>handleSettingChange\<close>
  (lines 209, 301, 355, 383, 424, 451), each value with the type its call site gives it.
\<close>

datatype change =
    Model any
  | Temperature number
  | TopP number
  | UseFixedSeed bool
  | Seed number
  | NumCtx number

text \<open>\<open>{ ...settings, [field]: value }\<close>\<close>

fun with_field :: "change \<Rightarrow> OllamaSettings \<Rightarrow> OllamaSettings" where
  "with_field (Model v) s = s\<lparr> model := v \<rparr>"
| "with_field (Temperature v) s = s\<lparr> temperature := v \<rparr>"
| "with_field (TopP v) s = s\<lparr> topP := v \<rparr>"
| "with_field (UseFixedSeed v) s = s\<lparr> useFixedSeed := v \<rparr>"
| "with_field (Seed v) s = s\<lparr> seed := v \<rparr>"
| "with_field (NumCtx v) s = s\<lparr> numCtx := v \<rparr>"

text \<open>
  \<open>handleSettingChange\<close> (lines 108-122): the new record becomes the state, and with
  \<open>autoApply\<close> a callback that will hand it to the owner is queued for the next frame.
\<close>

definition handleSettingChange :: "change \<Rightarrow> Component \<Rightarrow> Component" where
  "handleSettingChange ch c =
     (let newSettings = with_field ch (settings c)
      in c\<lparr> settings := newSettings,
             frames := frames c @ (if autoApply (props c)
                                   then [(onSettingsSave (props c), newSettings)] else []) \<rparr>)"

text \<open>One edit: the handler, then the render it causes with its effects.\<close>

definition edit :: "change \<Rightarrow> Component \<Rightarrow> Component" where
  "edit ch c = settle (handleSettingChange ch c)"

subsection \<open>Events\<close>

text \<open>
  What can happen to a mounted panel: the owner renders it again, the fetch started at
  mount comes back, the user operates one of the controls, or the browser reaches the
  next animation frame. The two text fields deliver the typed string.
\<close>

datatype event =
    Render Props
  | FetchSettled "connection option" tags_response
  | SelectModel any
  | SlideTemperature number
  | SlideTopP number
  | ToggleFixedSeed bool
  | TypeSeed string
  | TypeNumCtx string
  | ClickApply
  | AnimationFrame

text \<open>The menu shows the error item when \<open>error\<close> is truthy.\<close>

definition error_shown :: "Component \<Rightarrow> bool" where
  "error_shown c = (case error c of None \<Rightarrow> False | Some msg \<Rightarrow> msg \<noteq> [])"

text \<open>
  A control that is not rendered receives nothing: the model items exist only when
  neither the loading nor the error item is shown (lines 235-266), the seed field only
  with \<open>useFixedSeed\<close> (line 408), the button only without \<open>autoApply\<close> (line 462).
  There is one fetch per mount, so it settles only while \<open>loading\<close>.
  \<open>toNumber\<close> is the language's \<open>Number(...)\<close> on strings.

  Every state update is followed by its render and the effects of that commit. This is
  the panel as long as the model names are primitive values (strings, as the interface
  declares them). A name that is an object makes the render that shows it throw, and
  the panel is unmounted before its effects run; names that are arrays or objects are
  compared by identity. Where a property below depends on either, it is stated for
  primitive names.
\<close>

fun step :: "string \<Rightarrow> (string \<Rightarrow> number) \<Rightarrow> event \<Rightarrow> Component \<Rightarrow> Component" where
  "step startCommand toNumber (Render p) c = settle (c\<lparr> props := p \<rparr>)"
| "step startCommand toNumber (FetchSettled probe response) c =
     (if loading c then settle (fetchModels startCommand probe response c) else c)"
| "step startCommand toNumber (SelectModel v) c =
     (if \<not> loading c \<and> \<not> error_shown c \<and> v \<in> set (availableModels c)
      then edit (Model v) c else c)"
| "step startCommand toNumber (SlideTemperature v) c = edit (Temperature v) c"
| "step startCommand toNumber (SlideTopP v) c = edit (TopP v) c"
| "step startCommand toNumber (ToggleFixedSeed b) c = edit (UseFixedSeed b) c"
| "step startCommand toNumber (TypeSeed str) c =
     (if useFixedSeed (settings c) then edit (Seed (toNumber str)) c else c)"
| "step startCommand toNumber (TypeNumCtx str) c = edit (NumCtx (toNumber str)) c"
| "step startCommand toNumber ClickApply c =
     (if autoApply (props c) then c
      else c\<lparr> pushes := pushes c @ [(onSettingsSave (props c), settings c)] \<rparr>)"
| "step startCommand toNumber AnimationFrame c =
     c\<lparr> pushes := pushes c @ frames c, frames := [] \<rparr>"

text \<open>The panel after a sequence of events, and the panels a mount can lead to.\<close>

definition run :: "string \<Rightarrow> (string \<Rightarrow> number) \<Rightarrow> event list \<Rightarrow> Component \<Rightarrow> Component" where
  "run startCommand toNumber evs c = fold (step startCommand toNumber) evs c"

text \<open>No effect is due: both dependency arrays are those of the current state.\<close>

definition settled :: "Component \<Rightarrow> bool" where
  "settled c =
     (bootstrapDeps c = Some (bootstrap_now (props c) (settings c))
      \<and> syncDeps c = Some (external_ref (props c)))"

text \<open>The domains the two sliders enforce (\<open>min\<close>, \<open>max\<close>), and a positive whole number.\<close>

fun between :: "rat \<Rightarrow> rat \<Rightarrow> number \<Rightarrow> bool" where
  "between lo hi (Num x) = (lo \<le> x \<and> x \<le> hi)"
| "between lo hi _ = False"

fun positive_integer :: "number \<Rightarrow> bool" where
  "positive_integer (Num x) = (0 < x \<and> x = of_int \<lfloor>x\<rfloor>)"
| "positive_integer _ = False"

subsection \<open>Sample inputs\<close>

text \<open>
  Inputs for the worked examples: a reachable and an unreachable server, the payload
  \<open>{"models": [{"name": "a"}, {"name": "b"}]}\<close>, an owner with and without
  auto-apply that supplies no settings, a supplied record with model \<open>llama3\<close>, and
  \<open>Number\<close> on the strings the examples type.
\<close>

abbreviation sample_ok :: "connection option" where
  "sample_ok \<equiv> Some \<lparr> connected = True, connectionError = None \<rparr>"

abbreviation sample_down :: "connection option" where
  "sample_down \<equiv> Some \<lparr> connected = False, connectionError = Some ''connection refused'' \<rparr>"

abbreviation sample_tags :: tags_response where
  "sample_tags \<equiv>
     JsonBody (JObj [(''models'', JArr [JObj [(''name'', JStr ''a'')], JObj [(''name'', JStr ''b'')]])])"

abbreviation sample_auto :: Props where
  "sample_auto \<equiv> \<lparr> onSettingsSave = 1, autoApply = True, initialSettings = None \<rparr>"

abbreviation sample_manual :: Props where
  "sample_manual \<equiv> \<lparr> onSettingsSave = 1, autoApply = False, initialSettings = None \<rparr>"

abbreviation sample_llama3 :: OllamaSettings where
  "sample_llama3 \<equiv>
     \<lparr> model = JStr ''llama3'', temperature = Num (1/2), topP = Num 1,
       useFixedSeed = False, seed = Num 7, numCtx = Num 4096 \<rparr>"

abbreviation sample_number :: "string \<Rightarrow> number" where
  "sample_number \<equiv> (\<lambda>s. if s = '''' then Num 0 else if s = ''4096'' then Num 4096 else NaN)"

section \<open>Properties\<close>

subsection \<open>What the effects leave alone\<close>

lemma loading_effects [simp]: "loading (effects c) = loading c"
  and error_effects [simp]: "error (effects c) = error c"
  and availableModels_effects [simp]: "availableModels (effects c) = availableModels c"
  and props_effects [simp]: "props (effects c) = props c"
  and frames_effects [simp]: "frames (effects c) = frames c"
  by (simp_all add: effects_def Let_def)

lemma loading_settle [simp]: "loading (settle c) = loading c"
  and error_settle [simp]: "error (settle c) = error c"
  and availableModels_settle [simp]: "availableModels (settle c) = availableModels c"
  and props_settle [simp]: "props (settle c) = props c"
  and frames_settle [simp]: "frames (settle c) = frames c"
  by (simp_all add: settle_def)

subsection \<open>Two rounds of effects are enough\<close>

lemma settled_settle: "settled (settle c)"
  by (simp add: settled_def settle_def effects_def Let_def)

lemma settle_synced:
  "syncDeps c = Some (external_ref (props c)) \<Longrightarrow>
   settle c = c\<lparr> bootstrapDeps := Some (bootstrap_now (props c) (settings c)),
                 pushes := pushes c @
                   (if bootstrapDeps c \<noteq> Some (bootstrap_now (props c) (settings c))
                       \<and> autoApply (props c) \<and> truthy (model (settings c))
                       \<and> \<not> truthy (external_model (props c))
                    then [(onSettingsSave (props c), settings c)] else []) \<rparr>"
  by (simp add: settle_def effects_def Let_def)

lemma settle_settled: "settled c \<Longrightarrow> settle c = c"
  by (simp add: settle_synced settled_def)

lemma effects_settle: "effects (settle c) = settle c"
  using settled_settle [of c]
  by (simp add: settled_def effects_def Let_def)

subsection \<open>Invariants of a mounted panel\<close>

lemma settled_step: "settled c \<Longrightarrow> settled (step cmd N ev c)"
  by (cases ev) (simp_all add: settled_settle edit_def, simp_all add: settled_def)

lemma settled_mount: "settled (mount p)"
  by (simp add: mount_def settled_settle)

lemma settled_run: "settled c \<Longrightarrow> settled (run cmd N evs c)"
  unfolding run_def by (induction evs arbitrary: c) (simp_all add: settled_step)

lemma settled_reachable: "settled (run cmd N evs (mount p))"
  by (simp add: settled_run settled_mount)

text \<open>While the fetch is in flight the model list is empty and no error is recorded.\<close>

lemma loading_fetchModels [simp]: "loading (fetchModels cmd probe response c) = False"
  by (simp add: fetchModels_def split: sum.splits)

lemma pending_step:
  assumes "loading c \<Longrightarrow> availableModels c = [] \<and> error c = None"
    and "loading (step cmd N ev c)"
  shows "availableModels (step cmd N ev c) = [] \<and> error (step cmd N ev c) = None"
  using assms
  by (cases ev) (simp_all add: edit_def handleSettingChange_def Let_def split: if_splits)

lemma pending_run:
  assumes "loading c \<Longrightarrow> availableModels c = [] \<and> error c = None"
    and "loading (run cmd N evs c)"
  shows "availableModels (run cmd N evs c) = [] \<and> error (run cmd N evs c) = None"
  using assms unfolding run_def
proof (induction evs arbitrary: c)
  case Nil
  then show ?case by simp
next
  case (Cons ev evs)
  have "loading (step cmd N ev c) \<Longrightarrow>
        availableModels (step cmd N ev c) = [] \<and> error (step cmd N ev c) = None"
    using Cons.prems(1) by (rule pending_step)
  with Cons.IH [of "step cmd N ev c"] Cons.prems(2) show ?case by simp
qed

lemma pending_reachable:
  "loading (run cmd N evs (mount p)) \<Longrightarrow>
   availableModels (run cmd N evs (mount p)) = [] \<and> error (run cmd N evs (mount p)) = None"
  by (rule pending_run) (simp_all add: mount_def)

subsection \<open>One update cycle on a settled panel\<close>
lemma edit_settled:
  assumes "settled c"
  shows "edit ch c =
     c\<lparr> settings := with_field ch (settings c),
        frames := frames c @ (if autoApply (props c)
                              then [(onSettingsSave (props c), with_field ch (settings c))] else []),
        bootstrapDeps := Some (bootstrap_now (props c) (with_field ch (settings c))),
        pushes := pushes c @
          (if model (with_field ch (settings c)) \<noteq> model (settings c)
              \<and> autoApply (props c) \<and> truthy (model (with_field ch (settings c)))
              \<and> \<not> truthy (external_model (props c))
           then [(onSettingsSave (props c), with_field ch (settings c))] else []) \<rparr>"
proof -
  let ?h = "handleSettingChange ch c"
  have sync: "syncDeps ?h = Some (external_ref (props ?h))"
    using assms by (simp add: handleSettingChange_def Let_def settled_def)
  show ?thesis
    unfolding edit_def settle_synced [OF sync]
    using assms
    by (simp add: handleSettingChange_def Let_def settled_def bootstrap_now_def)
qed

lemma fetch_settled:
  assumes "settled c"
  shows "settle (fetchModels cmd probe response c) =
     (case fetched_models probe response of
        Inr models \<Rightarrow>
          c\<lparr> availableModels := models, error := None,
             settings := select_first models (settings c), loading := False,
             bootstrapDeps := Some (bootstrap_now (props c) (select_first models (settings c))),
             pushes := pushes c @
               (if model (select_first models (settings c)) \<noteq> model (settings c)
                   \<and> autoApply (props c) \<and> truthy (model (select_first models (settings c)))
                   \<and> \<not> truthy (external_model (props c))
                then [(onSettingsSave (props c), select_first models (settings c))] else []) \<rparr>
      | Inl err \<Rightarrow>
          c\<lparr> error := Some (''Cannot connect to Ollama. '' @ cmd), loading := False \<rparr>)"
proof -
  let ?f = "fetchModels cmd probe response c"
  have sync: "syncDeps ?f = Some (external_ref (props ?f))"
    using assms by (simp add: fetchModels_def settled_def split: sum.splits)
  show ?thesis
    unfolding settle_synced [OF sync]
    using assms
    by (simp add: fetchModels_def settled_def bootstrap_now_def split: sum.splits)
qed

lemma render_settled:
  assumes "settled c"
  shows "settings (settle (c\<lparr> props := p' \<rparr>)) =
           (if external_ref p' \<noteq> external_ref (props c)
            then (case initialSettings p' of Some (r, e) \<Rightarrow> e | None \<Rightarrow> settings c)
            else settings c)"
    and "pushes (settle (c\<lparr> props := p' \<rparr>)) =
           pushes c @
           (if (autoApply p', onSettingsSave p', external_model p')
                 \<noteq> (autoApply (props c), onSettingsSave (props c), external_model (props c))
               \<and> autoApply p' \<and> truthy (model (settings c)) \<and> \<not> truthy (external_model p')
            then [(onSettingsSave p', settings c)] else [])"
proof -
  let ?c = "c\<lparr> props := p' \<rparr>"
  have d2: "bootstrapDeps c = Some (bootstrap_now (props c) (settings c))"
    and d3: "syncDeps c = Some (external_ref (props c))"
    using assms by (simp_all add: settled_def)
  have s1: "settings (effects ?c) =
      (if external_ref p' \<noteq> external_ref (props c)
       then (case initialSettings p' of Some (r, e) \<Rightarrow> e | None \<Rightarrow> settings c)
       else settings c)"
    by (simp add: effects_def Let_def d3 eq_commute)
  have y1: "syncDeps (effects ?c) = Some (external_ref p')"
    by (simp add: effects_def Let_def)
  have s2: "settings (effects (effects ?c)) = settings (effects ?c)"
    by (simp add: effects_def [of "effects ?c"] Let_def y1)
  show "settings (settle ?c) =
           (if external_ref p' \<noteq> external_ref (props c)
            then (case initialSettings p' of Some (r, e) \<Rightarrow> e | None \<Rightarrow> settings c)
            else settings c)"
    by (simp only: settle_def s2 s1)
  have p1: "pushes (effects ?c) = pushes c @
           (if (autoApply p', onSettingsSave p', external_model p')
                 \<noteq> (autoApply (props c), onSettingsSave (props c), external_model (props c))
               \<and> autoApply p' \<and> truthy (model (settings c)) \<and> \<not> truthy (external_model p')
            then [(onSettingsSave p', settings c)] else [])"
    by (simp add: effects_def Let_def d2 bootstrap_now_def eq_commute)
  have b1: "bootstrapDeps (effects ?c) = Some (bootstrap_now p' (settings c))"
    by (simp add: effects_def Let_def)
  have quiet: "\<not> (bootstrapDeps (effects ?c) \<noteq> Some (bootstrap_now p' (settings (effects ?c)))
                \<and> autoApply p' \<and> truthy (model (settings (effects ?c)))
                \<and> \<not> truthy (external_model p'))"
  proof (cases "external_ref p' \<noteq> external_ref (props c)")
    case False
    then show ?thesis by (simp add: s1 b1)
  next
    case True
    show ?thesis
    proof (cases "initialSettings p'")
      case None
      then show ?thesis using True by (simp add: s1 b1)
    next
      case (Some a)
      then show ?thesis using True
        by (cases a) (simp add: s1 b1 external_model_def)
    qed
  qed
  have p2: "pushes (effects (effects ?c)) = pushes (effects ?c)"
    using quiet by (simp add: effects_def [of "effects ?c"] Let_def)
  show "pushes (settle ?c) =
           pushes c @
           (if (autoApply p', onSettingsSave p', external_model p')
                 \<noteq> (autoApply (props c), onSettingsSave (props c), external_model (props c))
               \<and> autoApply p' \<and> truthy (model (settings c)) \<and> \<not> truthy (external_model p')
            then [(onSettingsSave p', settings c)] else [])"
    by (simp only: settle_def p2 p1)
qed

lemmas panel_defs =
  run_def mount_def settle_def effects_def Let_def defaultSettings_def bootstrap_now_def
  external_model_def external_ref_def fetchModels_def fetched_models_def extract_models_def
  select_first_def edit_def handleSettingChange_def error_shown_def

section \<open>The claims\<close>

text \<open>
  C1. After a successful fetch the model of the working record becomes the first
  fetched name exactly when the list is not empty and the working model is empty
  (falsy, which for a string means \<open>''\<close>) at the moment the update is applied, in
  whatever state the panel is by then; in every other case the working record is
  returned as it is. The new state is the record the updater returns, so all other
  fields are those of the record it was given.
\<close>

theorem bootstrap_selection:
  assumes "c = run cmd N evs (mount p)"
    and "loading c"
    and "fetched_models probe response = Inr models"
  shows "settings (step cmd N (FetchSettled probe response) c) =
           (if models \<noteq> [] \<and> \<not> truthy (model (settings c))
            then (settings c)\<lparr> model := hd models \<rparr>
            else settings c)"
proof -
  have "settled c"
    using assms(1) by (simp add: settled_reachable)
  then have "settle (fetchModels cmd probe response c) =
      c\<lparr> availableModels := models, error := None,
         settings := select_first models (settings c), loading := False,
         bootstrapDeps := Some (bootstrap_now (props c) (select_first models (settings c))),
         pushes := pushes c @
           (if model (select_first models (settings c)) \<noteq> model (settings c)
               \<and> autoApply (props c) \<and> truthy (model (select_first models (settings c)))
               \<and> \<not> truthy (external_model (props c))
            then [(onSettingsSave (props c), select_first models (settings c))] else []) \<rparr>"
    by (simp add: fetch_settled assms(3))
  then have "settings (step cmd N (FetchSettled probe response) c) =
      select_first models (settings c)"
    using assms(2) by simp
  also have "\<dots> = (if models \<noteq> [] \<and> \<not> truthy (model (settings c))
            then (settings c)\<lparr> model := hd models \<rparr> else settings c)"
    by (cases models) (simp_all add: select_first_def)
  finally show ?thesis .
qed

theorem bootstrap_selection_witness:
  "model (settings (step ''ollama serve'' sample_number (FetchSettled sample_ok sample_tags)
      (run ''ollama serve'' sample_number []
         (mount \<lparr> onSettingsSave = 1, autoApply = False,
                  initialSettings = Some (7, sample_llama3) \<rparr>)))) = JStr ''llama3''
   \<and> model (settings (step ''ollama serve'' sample_number (FetchSettled sample_ok sample_tags)
      (run ''ollama serve'' sample_number []
         (mount \<lparr> onSettingsSave = 1, autoApply = False,
                  initialSettings = Some (7, defaultSettings) \<rparr>)))) = JStr ''a''
   \<and> model (settings (step ''ollama serve'' sample_number (FetchSettled sample_ok sample_tags)
      (run ''ollama serve'' sample_number [] (mount sample_manual)))) = JStr ''a''"
proof -
  have f: "fetched_models sample_ok sample_tags = Inr [JStr ''a'', JStr ''b'']"
    by (simp add: panel_defs)
  have l: "loading (run ''ollama serve'' sample_number [] (mount q))" for q
    by (simp add: run_def mount_def)
  show ?thesis
    using bootstrap_selection [where cmd = "''ollama serve''" and N = sample_number and evs = "[]"
        and p = "\<lparr> onSettingsSave = 1, autoApply = False, initialSettings = Some (7, sample_llama3) \<rparr>",
        OF refl l f]
      bootstrap_selection [where cmd = "''ollama serve''" and N = sample_number and evs = "[]"
        and p = "\<lparr> onSettingsSave = 1, autoApply = False, initialSettings = Some (7, defaultSettings) \<rparr>",
        OF refl l f]
      bootstrap_selection [where cmd = "''ollama serve''" and N = sample_number and evs = "[]"
        and p = sample_manual, OF refl l f]
    by (simp add: panel_defs)
qed

text \<open>
  C6. At mount the working record is the externally supplied record when there is
  one and the default record otherwise, and mounting hands nothing to the owner:
  no call has been made and none is queued.
\<close>

theorem initialize:
  "settings (mount p) = (case initialSettings p of Some (r, s) \<Rightarrow> s | None \<Rightarrow> defaultSettings)
   \<and> pushes (mount p) = [] \<and> frames (mount p) = []"
proof (cases "initialSettings p")
  case None
  then show ?thesis
    by (simp add: mount_def settle_def effects_def Let_def bootstrap_now_def
        external_model_def external_ref_def defaultSettings_def)
next
  case (Some a)
  then show ?thesis
    by (cases a) (simp add: mount_def settle_def effects_def Let_def bootstrap_now_def
        external_model_def external_ref_def)
qed

theorem initialize_witness:
  "settings (mount \<lparr> onSettingsSave = 1, autoApply = True,
                     initialSettings = Some (7, sample_llama3) \<rparr>) = sample_llama3
   \<and> pushes (mount \<lparr> onSettingsSave = 1, autoApply = True,
                     initialSettings = Some (7, sample_llama3) \<rparr>) = []
   \<and> settings (mount sample_auto) = defaultSettings
   \<and> pushes (mount sample_auto) = []"
  using initialize [of "\<lparr> onSettingsSave = 1, autoApply = True,
                         initialSettings = Some (7, sample_llama3) \<rparr>"]
    initialize [of sample_auto]
  by simp

text \<open>
  C10. With no external initial settings the working record at mount is the literal
  \<open>{ model: '', temperature: 0.7, topP: 0.9, useFixedSeed: false, seed: 42,
  numCtx: 2048 }\<close>: temperature and topP lie in the sliders' ranges \<open>[0, 2]\<close> and
  \<open>[0, 1]\<close>, numCtx is a positive whole number, and the model is empty, so that
  the first successful fetch selects one.
\<close>

theorem default_record:
  assumes "initialSettings p = None"
  shows "settings (mount p) =
           \<lparr> model = JStr '''', temperature = Num (7/10), topP = Num (9/10),
             useFixedSeed = False, seed = Num 42, numCtx = Num 2048 \<rparr>
         \<and> between 0 2 (temperature (settings (mount p)))
         \<and> between 0 1 (topP (settings (mount p)))
         \<and> positive_integer (numCtx (settings (mount p)))
         \<and> \<not> truthy (model (settings (mount p)))"
proof -
  have "settings (mount p) = defaultSettings"
    using assms by (simp add: mount_def settle_def effects_def Let_def external_ref_def)
  then show ?thesis
    by (simp add: defaultSettings_def)
qed

theorem default_record_witness:
  "initialSettings sample_auto = None
   \<and> settings (mount sample_auto) =
           \<lparr> model = JStr '''', temperature = Num (7/10), topP = Num (9/10),
             useFixedSeed = False, seed = Num 42, numCtx = Num 2048 \<rparr>
   \<and> between 0 2 (temperature (settings (mount sample_auto)))
   \<and> positive_integer (numCtx (settings (mount sample_auto)))"
proof -
  have h: "initialSettings sample_auto = None" by simp
  show ?thesis
    using h default_record [OF h] by simp
qed

text \<open>
  C5. When the connectivity probe answers \<open>connected = false\<close>, the fetch records
  the message \<open>Cannot connect to Ollama.\<close> followed by the start command, the model
  list stays empty, the working record is not touched (no model is selected), the
  owner receives no call and none is queued, and the panel leaves the loading state:
  the exception ends in the \<open>catch\<close> block.
\<close>

theorem connectivity_failure:
  assumes "c = run cmd N evs (mount p)"
    and "loading c"
    and "\<not> connected conn"
  shows "error (step cmd N (FetchSettled (Some conn) response) c)
           = Some (''Cannot connect to Ollama. '' @ cmd)
         \<and> availableModels (step cmd N (FetchSettled (Some conn) response) c) = []
         \<and> settings (step cmd N (FetchSettled (Some conn) response) c) = settings c
         \<and> pushes (step cmd N (FetchSettled (Some conn) response) c) = pushes c
         \<and> frames (step cmd N (FetchSettled (Some conn) response) c) = frames c
         \<and> \<not> loading (step cmd N (FetchSettled (Some conn) response) c)"
proof -
  have "settled c"
    using assms(1) by (simp add: settled_reachable)
  moreover have "\<exists>msg. fetched_models (Some conn) response = Inl (Error msg)"
    using assms(3) by (simp add: fetched_models_def)
  ultimately have "step cmd N (FetchSettled (Some conn) response) c =
      c\<lparr> error := Some (''Cannot connect to Ollama. '' @ cmd), loading := False \<rparr>"
    using assms(2) by (auto simp: fetch_settled)
  moreover have "availableModels c = []"
    using assms(1,2) pending_reachable by blast
  ultimately show ?thesis by simp
qed

theorem connectivity_failure_witness:
  "loading (run ''ollama serve'' sample_number [] (mount sample_auto))
   \<and> error (step ''ollama serve'' sample_number (FetchSettled sample_down sample_tags)
        (run ''ollama serve'' sample_number [] (mount sample_auto)))
       = Some ''Cannot connect to Ollama. ollama serve''
   \<and> availableModels (step ''ollama serve'' sample_number (FetchSettled sample_down sample_tags)
        (run ''ollama serve'' sample_number [] (mount sample_auto))) = []
   \<and> model (settings (step ''ollama serve'' sample_number (FetchSettled sample_down sample_tags)
        (run ''ollama serve'' sample_number [] (mount sample_auto)))) = JStr ''''
   \<and> pushes (step ''ollama serve'' sample_number (FetchSettled sample_down sample_tags)
        (run ''ollama serve'' sample_number [] (mount sample_auto))) = []"
proof -
  have l: "loading (run ''ollama serve'' sample_number [] (mount sample_auto))"
    by (simp add: run_def mount_def)
  have d: "\<not> connected \<lparr> connected = False, connectionError = Some ''connection refused'' \<rparr>"
    by simp
  show ?thesis
    using l connectivity_failure [where response = sample_tags, OF refl l d]
    by (simp add: panel_defs)
qed

text \<open>
  C7. When the owner renders the panel with an \<open>initialSettings\<close> object of another
  identity than the one of the render before (or with one where there was none), the
  working record becomes that object's record, whatever was edited locally. A render
  whose \<open>initialSettings\<close> has the identity it had leaves the working record as it is.
  (When the owner stops supplying a value, there is nothing to overwrite with.)
\<close>

theorem external_settings_changed:
  assumes "c = run cmd N evs (mount p)"
  shows "(initialSettings p' = Some (r', s') \<and> external_ref (props c) \<noteq> Some r'
            \<longrightarrow> settings (step cmd N (Render p') c) = s')
         \<and> (external_ref p' = external_ref (props c)
            \<longrightarrow> settings (step cmd N (Render p') c) = settings c)"
proof -
  have "settled c"
    using assms by (simp add: settled_reachable)
  then have "settings (step cmd N (Render p') c) =
           (if external_ref p' \<noteq> external_ref (props c)
            then (case initialSettings p' of Some (r, e) \<Rightarrow> e | None \<Rightarrow> settings c)
            else settings c)"
    by (simp add: render_settled(1))
  then have r: "settings (step cmd N (Render p') c) =
           (if external_ref p' \<noteq> external_ref (props c)
            then (case initialSettings p' of Some (r, e) \<Rightarrow> e | None \<Rightarrow> settings c)
            else settings c)" .
  have "settings (step cmd N (Render p') c) = s'"
    if "initialSettings p' = Some (r', s')" and "external_ref (props c) \<noteq> Some r'"
  proof -
    have "external_ref p' = Some r'"
      using that(1) by (simp add: external_ref_def)
    then show ?thesis
      using that r by (simp add: eq_commute)
  qed
  moreover have "settings (step cmd N (Render p') c) = settings c"
    if "external_ref p' = external_ref (props c)"
    using that r by simp
  ultimately show ?thesis by blast
qed

theorem external_settings_changed_witness:
  "settings (step ''ollama serve'' sample_number
       (Render \<lparr> onSettingsSave = 1, autoApply = False,
                 initialSettings = Some (8, defaultSettings) \<rparr>)
       (run ''ollama serve'' sample_number [SlideTemperature (Num 1)]
          (mount \<lparr> onSettingsSave = 1, autoApply = False,
                   initialSettings = Some (7, sample_llama3) \<rparr>))) = defaultSettings
   \<and> settings (step ''ollama serve'' sample_number
       (Render \<lparr> onSettingsSave = 2, autoApply = False,
                 initialSettings = Some (7, sample_llama3) \<rparr>)
       (run ''ollama serve'' sample_number [SlideTemperature (Num 1)]
          (mount \<lparr> onSettingsSave = 1, autoApply = False,
                   initialSettings = Some (7, sample_llama3) \<rparr>)))
      = sample_llama3\<lparr> temperature := Num 1 \<rparr>"
  using external_settings_changed [where cmd = "''ollama serve''" and N = sample_number
      and evs = "[SlideTemperature (Num 1)]"
      and p = "\<lparr> onSettingsSave = 1, autoApply = False, initialSettings = Some (7, sample_llama3) \<rparr>"
      and p' = "\<lparr> onSettingsSave = 1, autoApply = False, initialSettings = Some (8, defaultSettings) \<rparr>"
      and r' = 8 and s' = defaultSettings, OF refl]
    external_settings_changed [where cmd = "''ollama serve''" and N = sample_number
      and evs = "[SlideTemperature (Num 1)]"
      and p = "\<lparr> onSettingsSave = 1, autoApply = False, initialSettings = Some (7, sample_llama3) \<rparr>"
      and p' = "\<lparr> onSettingsSave = 2, autoApply = False, initialSettings = Some (7, sample_llama3) \<rparr>"
      and r' = 7 and s' = sample_llama3, OF refl]
  by (simp add: panel_defs)

text \<open>
  C9. Whatever string the context-size field or the seed field delivers, and whatever
  number \<open>Number\<close> makes of it (\<open>NaN\<close> for a string that is no numeral), the edit
  yields a working record in which that number is the field's value and the five other
  fields are as before; nothing is thrown, and the panel's error cell is as it was.
  The seed field exists only while \<open>useFixedSeed\<close> is set.
\<close>

theorem numeric_input_coerced:
  assumes "c = run cmd N evs (mount p)"
  shows "settings (step cmd N (TypeNumCtx str) c) = (settings c)\<lparr> numCtx := N str \<rparr>
         \<and> settings (step cmd N (TypeSeed str) c) =
             (if useFixedSeed (settings c) then (settings c)\<lparr> seed := N str \<rparr> else settings c)
         \<and> error (step cmd N (TypeNumCtx str) c) = error c
         \<and> error (step cmd N (TypeSeed str) c) = error c"
proof -
  have "settled c"
    using assms by (simp add: settled_reachable)
  then show ?thesis
    by (simp add: edit_settled)
qed

theorem numeric_input_coerced_witness:
  "numCtx (settings (step ''ollama serve'' sample_number (TypeNumCtx '''')
       (run ''ollama serve'' sample_number [ToggleFixedSeed True] (mount sample_manual)))) = Num 0
   \<and> numCtx (settings (step ''ollama serve'' sample_number (TypeNumCtx ''4096'')
       (run ''ollama serve'' sample_number [ToggleFixedSeed True] (mount sample_manual)))) = Num 4096
   \<and> seed (settings (step ''ollama serve'' sample_number (TypeSeed ''abc'')
       (run ''ollama serve'' sample_number [ToggleFixedSeed True] (mount sample_manual)))) = NaN
   \<and> numCtx (settings (step ''ollama serve'' sample_number (TypeSeed ''abc'')
       (run ''ollama serve'' sample_number [ToggleFixedSeed True] (mount sample_manual)))) = Num 2048"
  using numeric_input_coerced [where cmd = "''ollama serve''" and N = sample_number
      and evs = "[ToggleFixedSeed True]" and p = sample_manual and str = "''''", OF refl]
    numeric_input_coerced [where cmd = "''ollama serve''" and N = sample_number
      and evs = "[ToggleFixedSeed True]" and p = sample_manual and str = "''4096''", OF refl]
    numeric_input_coerced [where cmd = "''ollama serve''" and N = sample_number
      and evs = "[ToggleFixedSeed True]" and p = sample_manual and str = "''abc''", OF refl]
  by (simp add: panel_defs)

text \<open>
  C3. \<open>{ ...settings, [field]: value }\<close> gives the named field the new value and
  leaves every other field as it is. So without auto-apply, setting the temperature
  and the top-p and then pressing the button hands the owner one record: the working
  record with exactly these two values replaced. This holds for all numbers, those of
  the sliders' ranges among them; the seed of the pushed record is the seed of the
  working record, whether or not \<open>useFixedSeed\<close> is set.
\<close>

theorem apply_field_then_commit:
  assumes "c = run cmd N evs (mount p)"
    and "\<not> autoApply (props c)"
  shows "model (with_field ch s) = (case ch of Model v \<Rightarrow> v | _ \<Rightarrow> model s)
         \<and> temperature (with_field ch s) = (case ch of Temperature v \<Rightarrow> v | _ \<Rightarrow> temperature s)
         \<and> topP (with_field ch s) = (case ch of TopP v \<Rightarrow> v | _ \<Rightarrow> topP s)
         \<and> useFixedSeed (with_field ch s) = (case ch of UseFixedSeed v \<Rightarrow> v | _ \<Rightarrow> useFixedSeed s)
         \<and> seed (with_field ch s) = (case ch of Seed v \<Rightarrow> v | _ \<Rightarrow> seed s)
         \<and> numCtx (with_field ch s) = (case ch of NumCtx v \<Rightarrow> v | _ \<Rightarrow> numCtx s)
         \<and> settings (edit ch c) = with_field ch (settings c)
         \<and> pushes (step cmd N ClickApply (edit ch c))
             = pushes c @ [(onSettingsSave (props c), with_field ch (settings c))]
         \<and> pushes (run cmd N [SlideTemperature t, SlideTopP q, ClickApply] c)
             = pushes c @ [(onSettingsSave (props c), (settings c)\<lparr> temperature := t, topP := q \<rparr>)]
         \<and> seed ((settings c)\<lparr> temperature := t, topP := q \<rparr>) = seed (settings c)"
proof -
  have fields: "model (with_field ch s) = (case ch of Model v \<Rightarrow> v | _ \<Rightarrow> model s)
         \<and> temperature (with_field ch s) = (case ch of Temperature v \<Rightarrow> v | _ \<Rightarrow> temperature s)
         \<and> topP (with_field ch s) = (case ch of TopP v \<Rightarrow> v | _ \<Rightarrow> topP s)
         \<and> useFixedSeed (with_field ch s) = (case ch of UseFixedSeed v \<Rightarrow> v | _ \<Rightarrow> useFixedSeed s)
         \<and> seed (with_field ch s) = (case ch of Seed v \<Rightarrow> v | _ \<Rightarrow> seed s)
         \<and> numCtx (with_field ch s) = (case ch of NumCtx v \<Rightarrow> v | _ \<Rightarrow> numCtx s)"
    by (cases ch) simp_all
  have c: "settled c"
    using assms(1) by (simp add: settled_reachable)
  have one: "edit ch' c' =
      c'\<lparr> settings := with_field ch' (settings c'),
          bootstrapDeps := Some (bootstrap_now (props c') (with_field ch' (settings c'))) \<rparr>"
    if "settled c'" and "\<not> autoApply (props c')" for ch' c'
    using that by (simp add: edit_settled)
  have e: "settings (edit ch c) = with_field ch (settings c)"
    and a: "pushes (step cmd N ClickApply (edit ch c))
             = pushes c @ [(onSettingsSave (props c), with_field ch (settings c))]"
    using assms(2) by (simp_all add: one [OF c])
  let ?c1 = "edit (Temperature t) c"
  have c1: "settled ?c1" and m1: "\<not> autoApply (props ?c1)"
    using assms(2) by (simp_all add: edit_def settled_settle handleSettingChange_def Let_def)
  have s1: "settings ?c1 = (settings c)\<lparr> temperature := t \<rparr>"
    "props ?c1 = props c" "pushes ?c1 = pushes c"
    by (simp_all add: one [OF c assms(2)])
  let ?c2 = "edit (TopP q) ?c1"
  have s2: "settings ?c2 = (settings ?c1)\<lparr> topP := q \<rparr>"
    "props ?c2 = props ?c1" "pushes ?c2 = pushes ?c1"
    by (simp_all add: one [OF c1 m1])
  have "run cmd N [SlideTemperature t, SlideTopP q, ClickApply] c = step cmd N ClickApply ?c2"
    by (simp add: run_def)
  then have r: "pushes (run cmd N [SlideTemperature t, SlideTopP q, ClickApply] c)
             = pushes c @ [(onSettingsSave (props c), (settings c)\<lparr> temperature := t, topP := q \<rparr>)]"
    using assms(2) by (simp add: s1 s2)
  show ?thesis
    using fields e a r by simp
qed

theorem apply_field_then_commit_witness:
  "\<not> autoApply (props (run ''ollama serve'' sample_number [ToggleFixedSeed False]
        (mount \<lparr> onSettingsSave = 1, autoApply = False,
                 initialSettings = Some (7, sample_llama3) \<rparr>)))
   \<and> pushes (run ''ollama serve'' sample_number
        [SlideTemperature (Num (3/2)), SlideTopP (Num (1/5)), ClickApply]
        (run ''ollama serve'' sample_number [ToggleFixedSeed False]
          (mount \<lparr> onSettingsSave = 1, autoApply = False,
                   initialSettings = Some (7, sample_llama3) \<rparr>)))
      = [(1, \<lparr> model = JStr ''llama3'', temperature = Num (3/2), topP = Num (1/5),
               useFixedSeed = False, seed = Num 7, numCtx = Num 4096 \<rparr>)]"
proof -
  have m: "\<not> autoApply (props (run ''ollama serve'' sample_number [ToggleFixedSeed False]
        (mount \<lparr> onSettingsSave = 1, autoApply = False,
                 initialSettings = Some (7, sample_llama3) \<rparr>)))"
    by (simp add: panel_defs)
  show ?thesis
    using m apply_field_then_commit [where t = "Num (3/2)" and q = "Num (1/5)", OF refl m]
    by (simp add: panel_defs)
qed

text \<open>
  C2, as stated, fails: with auto-apply and no external model, choosing another model
  changes \<open>settings.model\<close>, so the effect of lines 94-99 calls the owner in the
  update cycle of the edit, and the callback queued by the handler calls it again at
  the next frame. After the fetch has selected \<open>a\<close> (one call), selecting \<open>b\<close>
  brings the owner's calls to two before the frame and to three after it.
\<close>

theorem model_edit_pushes_twice:
  "autoApply (props (run ''ollama serve'' sample_number
        [FetchSettled sample_ok sample_tags] (mount sample_auto)))
   \<and> pushes (run ''ollama serve'' sample_number
        [FetchSettled sample_ok sample_tags] (mount sample_auto))
      = [(1, defaultSettings\<lparr> model := JStr ''a'' \<rparr>)]
   \<and> pushes (run ''ollama serve'' sample_number
        [FetchSettled sample_ok sample_tags, SelectModel (JStr ''b'')] (mount sample_auto))
      = [(1, defaultSettings\<lparr> model := JStr ''a'' \<rparr>),
         (1, defaultSettings\<lparr> model := JStr ''b'' \<rparr>)]
   \<and> pushes (run ''ollama serve'' sample_number
        [FetchSettled sample_ok sample_tags, SelectModel (JStr ''b''), AnimationFrame]
        (mount sample_auto))
      = [(1, defaultSettings\<lparr> model := JStr ''a'' \<rparr>),
         (1, defaultSettings\<lparr> model := JStr ''b'' \<rparr>),
         (1, defaultSettings\<lparr> model := JStr ''b'' \<rparr>)]"
  by (simp add: panel_defs)

text \<open>
  C2, amended. With auto-apply every field edit makes the new record the working
  record at once and queues exactly one owner call with that record for the next
  frame; the handler itself calls nobody. Unless the edit changes the model to a
  non-empty value while the external settings carry no model, nothing is pushed in
  the update cycle of the edit, and the frame delivers the queued call: one push for
  the edit.
\<close>

theorem edit_deferred_push:
  assumes "c = run cmd N evs (mount p)"
    and "autoApply (props c)"
  shows "settings (edit ch c) = with_field ch (settings c)
         \<and> pushes (handleSettingChange ch c) = pushes c
         \<and> frames (edit ch c) = frames c @ [(onSettingsSave (props c), with_field ch (settings c))]
         \<and> (model (with_field ch (settings c)) = model (settings c)
              \<or> \<not> truthy (model (with_field ch (settings c)))
              \<or> truthy (external_model (props c))
            \<longrightarrow> pushes (edit ch c) = pushes c
                \<and> pushes (step cmd N AnimationFrame (edit ch c))
                    = pushes c @ frames c @ [(onSettingsSave (props c), with_field ch (settings c))])"
proof -
  have "settled c"
    using assms(1) by (simp add: settled_reachable)
  then have e: "edit ch c =
     c\<lparr> settings := with_field ch (settings c),
        frames := frames c @ (if autoApply (props c)
                              then [(onSettingsSave (props c), with_field ch (settings c))] else []),
        bootstrapDeps := Some (bootstrap_now (props c) (with_field ch (settings c))),
        pushes := pushes c @
          (if model (with_field ch (settings c)) \<noteq> model (settings c)
              \<and> autoApply (props c) \<and> truthy (model (with_field ch (settings c)))
              \<and> \<not> truthy (external_model (props c))
           then [(onSettingsSave (props c), with_field ch (settings c))] else []) \<rparr>"
    by (rule edit_settled)
  have h: "pushes (handleSettingChange ch c) = pushes c"
    by (simp add: handleSettingChange_def Let_def)
  show ?thesis
    using assms(2) h by (auto simp: e)
qed

theorem edit_deferred_push_witness:
  "autoApply (props (run ''ollama serve'' sample_number
        [FetchSettled sample_ok sample_tags, AnimationFrame] (mount sample_auto)))
   \<and> numCtx (settings (edit (NumCtx (Num 4096)) (run ''ollama serve'' sample_number
        [FetchSettled sample_ok sample_tags, AnimationFrame] (mount sample_auto)))) = Num 4096
   \<and> pushes (edit (NumCtx (Num 4096)) (run ''ollama serve'' sample_number
        [FetchSettled sample_ok sample_tags, AnimationFrame] (mount sample_auto)))
      = [(1, defaultSettings\<lparr> model := JStr ''a'' \<rparr>)]
   \<and> pushes (step ''ollama serve'' sample_number AnimationFrame
        (edit (NumCtx (Num 4096)) (run ''ollama serve'' sample_number
          [FetchSettled sample_ok sample_tags, AnimationFrame] (mount sample_auto))))
      = [(1, defaultSettings\<lparr> model := JStr ''a'' \<rparr>),
         (1, defaultSettings\<lparr> model := JStr ''a'', numCtx := Num 4096 \<rparr>)]"
proof -
  have a: "autoApply (props (run ''ollama serve'' sample_number
        [FetchSettled sample_ok sample_tags, AnimationFrame] (mount sample_auto)))"
    by (simp add: panel_defs)
  show ?thesis
    using a edit_deferred_push [where ch = "NumCtx (Num 4096)", OF refl a]
    by (simp add: panel_defs)
qed




text \<open>
  C8, as stated, fails: line 68 reads \<open>data.models\<close> before \<open>?.\<close> guards
  anything, so the JSON body \<open>null\<close> throws a TypeError, and a \<open>models\<close> member
  that is neither absent, \<open>null\<close> nor an array (here the number 3) has no \<open>map\<close>
  to call. Both end in the \<open>catch\<close> block: the panel shows the connection error.
\<close>

theorem null_body_is_error:
  "error (run ''ollama serve'' sample_number
        [FetchSettled sample_ok (JsonBody JNull)] (mount sample_auto))
      = Some ''Cannot connect to Ollama. ollama serve''
   \<and> error (run ''ollama serve'' sample_number
        [FetchSettled sample_ok (JsonBody (JObj [(''models'', JNum (Num 3))]))] (mount sample_auto))
      = Some ''Cannot connect to Ollama. ollama serve''"
  by (simp add: panel_defs)

text \<open>
  C8, amended. For every fetched JSON body other than \<open>null\<close> whose \<open>models\<close>
  member is absent or \<open>null\<close> (an object without the key or with \<open>null\<close> under
  it, or any array, string, number or boolean), the fetch after a successful probe
  yields the empty model list, records no error and ends the loading state.
\<close>

theorem absent_models_is_empty_list:
  assumes "c = run cmd N evs (mount p)"
    and "loading c"
    and "connected conn"
    and "get_member ''models'' data = Inr JUndefined \<or> get_member ''models'' data = Inr JNull"
  shows "availableModels (step cmd N (FetchSettled (Some conn) (JsonBody data)) c) = []
         \<and> error (step cmd N (FetchSettled (Some conn) (JsonBody data)) c) = None
         \<and> \<not> loading (step cmd N (FetchSettled (Some conn) (JsonBody data)) c)"
proof -
  have "extract_models data = Inr []"
    using assms(4) by (auto simp: extract_models_def)
  then have "fetched_models (Some conn) (JsonBody data) = Inr []"
    using assms(3) by (simp add: fetched_models_def)
  moreover have "settled c"
    using assms(1) by (simp add: settled_reachable)
  ultimately show ?thesis
    using assms(2) by (simp add: fetch_settled)
qed

theorem absent_models_is_empty_list_witness:
  "loading (run ''ollama serve'' sample_number [] (mount sample_auto))
   \<and> get_member ''models'' (JObj [(''version'', JStr ''0.1'')]) = Inr JUndefined
   \<and> get_member ''models'' (JArr []) = Inr JUndefined
   \<and> availableModels (step ''ollama serve'' sample_number
        (FetchSettled sample_ok (JsonBody (JObj [(''version'', JStr ''0.1'')])))
        (run ''ollama serve'' sample_number [] (mount sample_auto))) = []
   \<and> error (step ''ollama serve'' sample_number
        (FetchSettled sample_ok (JsonBody (JObj [(''version'', JStr ''0.1'')])))
        (run ''ollama serve'' sample_number [] (mount sample_auto))) = None
   \<and> error (step ''ollama serve'' sample_number
        (FetchSettled sample_ok (JsonBody (JArr [])))
        (run ''ollama serve'' sample_number [] (mount sample_auto))) = None"
proof -
  have l: "loading (run ''ollama serve'' sample_number [] (mount sample_auto))"
    by (simp add: panel_defs)
  have k: "connected \<lparr> connected = True, connectionError = None \<rparr>"
    by simp
  have o: "get_member ''models'' (JObj [(''version'', JStr ''0.1'')]) = Inr JUndefined"
    and a: "get_member ''models'' (JArr []) = Inr JUndefined"
    by simp_all
  show ?thesis
    using l o a
      absent_models_is_empty_list [OF refl l k disjI1 [OF o]]
      absent_models_is_empty_list [OF refl l k disjI1 [OF a]]
    by simp
qed

end
